theory Spec2Isabelle
  imports Main
begin

section \<open>The web server's connection: data model\<close>

text \<open>
  A shallow embedding of \<^verbatim>\<open>src/webserver/connection.cpp\<close>. Every member function of
  \<^verbatim>\<open>connection\<close> becomes a function from the connection's state to its new state.
  Calls that leave the connection (on the socket, the timer, the connection manager,
  the request handler, the log) are appended, in program order, to the field \<open>io\<close>.
  Each definition gives one call of the member function, run from its first statement
  to its last. Nothing in the source keeps two calls apart (see the section on write
  requests and write completions), so the events of a run are smaller than a call.

  C++ member names ending or starting with an underscore lose it here
  (\<^verbatim>\<open>keepalive_\<close> is \<open>keepalive\<close>, \<^verbatim>\<open>_buf\<close> is \<open>buf\<close>).
\<close>

datatype connection_kind = connection_http | connection_websocket | connection_closing

text \<open>
  \<^verbatim>\<open>boost::system::error_code\<close>, as far as the code looks at it: no error (the code
  tests \<^verbatim>\<open>!error\<close>), \<^verbatim>\<open>boost::asio::error::operation_aborted\<close>, or any other error.
\<close>

datatype error_code = success | operation_aborted | other_error nat

text \<open>\<^verbatim>\<open>boost::tribool\<close>; it is default-constructed to false.\<close>

datatype tribool = true_value | false_value | indeterminate_value

text \<open>
  The request and the reply. Their headers are not in the source tree; the fields are
  the ones \<^verbatim>\<open>connection.cpp\<close> reads or writes, plus the header list and the body.
  The request's \<^verbatim>\<open>method\<close> and \<^verbatim>\<open>headers\<close> are \<open>req_method\<close> and \<open>req_headers\<close> here.
\<close>

record request =
  req_method :: string
  uri :: string
  req_headers :: "(string \<times> string) list"
  keep_alive :: bool
  host :: string

record reply =
  status :: nat
  content :: string

text \<open>
  Modelled from the spec: \<^verbatim>\<open>reply::switching_protocols\<close> and \<^verbatim>\<open>reply::bad_request\<close>
  are declared in \<^verbatim>\<open>reply.hpp\<close>, which is not in the source tree; the spec names the
  first "HTTP 101", the second is the status of the "bad request" response.
\<close>

definition switching_protocols :: nat where
  "switching_protocols = 101"

definition bad_request :: nat where
  "bad_request = 400"

text \<open>What the connection asks of the world around it, in the order it asks.\<close>

datatype effect =
    AsyncHandshake
  | AsyncRead
  | AsyncWrite string
  | TimerArm int
  | TimerCancel
  | SocketShutdown
  | SocketClose
  | ManagerStop
  | HandleRequest request
  | StoreSessionId request reply
  | LogError

record connection =
  secure :: bool
  keepalive :: bool
  write_in_progress :: bool
  connection_type :: connection_kind
  timeout :: int
  host_endpoint :: string
  m_lastresponse :: nat
  buf :: string
  write_buffer :: string
  writeQ :: "string list"
  io :: "effect list"

text \<open>
  The parser's answer: it returned a \<^verbatim>\<open>tribool\<close> and filled the request, or it threw
  and left the request as far as it got.
\<close>

datatype parse_outcome = Returned tribool request | Threw request

text \<open>
  The websocket handler's \<^verbatim>\<open>parse\<close>: its \<^verbatim>\<open>tribool\<close>, the bytes it consumed, the
  keep-alive flag it leaves in the reference it was given, and the frames it hands to
  the connection's \<^verbatim>\<open>MyWrite\<close> while it runs (the handler holds a pointer to the
  connection).
\<close>

record ws_outcome =
  ws_result :: tribool
  bytes_consumed :: nat
  ws_keepalive :: bool
  ws_writes :: "string list"

text \<open>
  The collaborators whose code is not in the source tree, as parameters:
  the request parser (after its \<^verbatim>\<open>reset\<close>), \<^verbatim>\<open>request::get_req_header\<close> (\<open>None\<close> for
  \<^verbatim>\<open>NULL\<close>), the request handler, the reply's serialisation and stock replies, the
  websocket handler's parser, and the two frames the websocket handler builds.
\<close>

record collaborators =
  parse :: "string \<Rightarrow> parse_outcome"
  get_req_header :: "request \<Rightarrow> string \<Rightarrow> string option"
  handle_request :: "request \<Rightarrow> reply"
  to_string :: "reply \<Rightarrow> string \<Rightarrow> string"
  stock_reply :: "nat \<Rightarrow> reply"
  ws_parse :: "string \<Rightarrow> bool \<Rightarrow> ws_outcome"
  close_frame :: "string \<Rightarrow> string"
  ping_frame :: string

section \<open>Strings\<close>

text \<open>\<^verbatim>\<open>boost::iequals\<close> in the classic locale: equality after lowering A to Z.\<close>

definition to_lower :: "char \<Rightarrow> char" where
  "to_lower ch =
     (let n = (of_char ch :: nat) in if 65 \<le> n \<and> n \<le> 90 then char_of (n + 32) else ch)"

definition iequals :: "string \<Rightarrow> string \<Rightarrow> bool" where
  "iequals a b = (map to_lower a = map to_lower b)"

text \<open>
  The host of a request: \<^verbatim>\<open>substr(0, 7)\<close> is \<open>take 7\<close>; \<^verbatim>\<open>substr(7)\<close> is \<open>drop 7\<close> and
  cannot throw here, the string having at least seven characters.
\<close>

definition request_host :: "string \<Rightarrow> string" where
  "request_host h = (if take 7 h = ''::ffff:'' then drop 7 h else h)"

section \<open>The member functions\<close>

definition emit :: "effect \<Rightarrow> connection \<Rightarrow> connection" where
  "emit e c = c\<lparr>io := io c @ [e]\<rparr>"

text \<open>
  The constructor. The timer is constructed with an expiry and no handler waits on it.
  \<open>now\<close> is what \<^verbatim>\<open>mytime(NULL)\<close> returns.
\<close>

definition connection_init :: "bool \<Rightarrow> int \<Rightarrow> nat \<Rightarrow> connection" where
  "connection_init sec tmo now =
     \<lparr>secure = sec, keepalive = False, write_in_progress = False,
      connection_type = connection_http, timeout = tmo, host_endpoint = [],
      m_lastresponse = now, buf = [], write_buffer = [], writeQ = [], io = []\<rparr>"

text \<open>\<^verbatim>\<open>read_more\<close>: prepare room for 4096 bytes, arm the timer, read some.\<close>

definition read_more :: "connection \<Rightarrow> connection" where
  "read_more c = emit AsyncRead (emit (TimerArm (timeout c)) c)"

definition SocketWrite :: "string \<Rightarrow> connection \<Rightarrow> connection" where
  "SocketWrite b c = emit (AsyncWrite b) (c\<lparr>write_in_progress := True, write_buffer := b\<rparr>)"

definition MyWrite :: "string \<Rightarrow> connection \<Rightarrow> connection" where
  "MyWrite b c =
     (case connection_type c of
        connection_http \<Rightarrow>
          (if write_in_progress c then c\<lparr>writeQ := writeQ c @ [b]\<rparr> else SocketWrite b c)
      | connection_websocket \<Rightarrow>
          (if write_in_progress c then c\<lparr>writeQ := writeQ c @ [b]\<rparr> else SocketWrite b c)
      | connection_closing \<Rightarrow> c)"

text \<open>
  Modelled from the spec: \<^verbatim>\<open>CWebsocketHandler::SendClose\<close> and \<^verbatim>\<open>SendPing\<close> are not in
  the source tree. The spec has the decoder build a close frame and a liveness probe,
  and has them enqueued for write on the connection: each hands its frame to
  \<open>MyWrite\<close>.
\<close>

definition SendClose :: "collaborators \<Rightarrow> string \<Rightarrow> connection \<Rightarrow> connection" where
  "SendClose env packet_data c = MyWrite (close_frame env packet_data) c"

definition SendPing :: "collaborators \<Rightarrow> connection \<Rightarrow> connection" where
  "SendPing env c = MyWrite (ping_frame env) c"

definition start :: "string \<Rightarrow> nat \<Rightarrow> connection \<Rightarrow> connection" where
  "start peer now c =
     (let c1 = c\<lparr>host_endpoint := peer\<rparr>;
          c2 = (if secure c1 then emit AsyncHandshake c1 else read_more c1)
      in c2\<lparr>m_lastresponse := now\<rparr>)"

definition stop :: "collaborators \<Rightarrow> connection \<Rightarrow> connection" where
  "stop env c =
     emit SocketClose
       (case connection_type c of
          connection_websocket \<Rightarrow> SendClose env [] c
        | connection_closing \<Rightarrow> c
        | connection_http \<Rightarrow> c)"

definition handle_timeout :: "collaborators \<Rightarrow> error_code \<Rightarrow> connection \<Rightarrow> connection" where
  "handle_timeout env error c =
     (if error \<noteq> operation_aborted then
        (case connection_type c of
           connection_http \<Rightarrow> emit ManagerStop c
         | connection_websocket \<Rightarrow> SendPing env c
         | connection_closing \<Rightarrow> c)
      else c)"

definition handle_handshake :: "error_code \<Rightarrow> connection \<Rightarrow> connection" where
  "handle_handshake error c =
     (if secure c then
        (if error = success then read_more c else emit ManagerStop c)
      else c)"

text \<open>
  The HTTP branch of \<^verbatim>\<open>handle_read\<close>, after the bytes are committed. The parser's end
  iterator is ignored and \<^verbatim>\<open>begin\<close> is not advanced, so \<^verbatim>\<open>sizeread\<close> is 0 and
  \<^verbatim>\<open>_buf.consume(sizeread)\<close> removes nothing. When the parser throws, the error is
  logged and \<^verbatim>\<open>result\<close> keeps the value it was constructed with, false.
\<close>

definition handle_read_http :: "collaborators \<Rightarrow> connection \<Rightarrow> connection" where
  "handle_read_http env c =
     (let (c0, result, request0) =
            (case parse env (buf c) of
               Returned r q \<Rightarrow> (c, r, q)
             | Threw q \<Rightarrow> (emit LogError c, false_value, q))
      in
      if result = true_value then
        (let c1 = c0\<lparr>buf := drop 0 (buf c0)\<rparr>;
             pConnection = get_req_header env request0 ''Connection'';
             c2 = c1\<lparr>keepalive :=
                    (case pConnection of None \<Rightarrow> False | Some v \<Rightarrow> iequals v ''Keep-Alive'')\<rparr>;
             request1 = request0\<lparr>keep_alive := keepalive c2\<rparr>;
             request2 = request1\<lparr>host := request_host (host_endpoint c2)\<rparr>;
             reply0 = handle_request env request2;
             c3 = emit (HandleRequest request2) c2;
             c4 = MyWrite (to_string env reply0 (req_method request2)) c3;
             c5 = (if status reply0 = switching_protocols then
                     emit (StoreSessionId request2 reply0)
                       (c4\<lparr>connection_type := connection_websocket, keepalive := True\<rparr>)
                   else c4)
         in if keepalive c5 then read_more c5 else c5)
      else if result = false_value then
        (let c1 = c0\<lparr>keepalive := False\<rparr>;
             reply0 = stock_reply env bad_request;
             c2 = MyWrite (to_string env reply0 (req_method request0)) c1
         in if keepalive c2 then read_more c2 else c2)
      else read_more c0)"

text \<open>The websocket branch, taken in the websocket and the closing state.\<close>

definition handle_read_websocket :: "collaborators \<Rightarrow> connection \<Rightarrow> connection" where
  "handle_read_websocket env c =
     (let out = ws_parse env (buf c) (keepalive c);
          c0 = foldl (\<lambda>k b. MyWrite b k) c (ws_writes out);
          c1 = c0\<lparr>keepalive := ws_keepalive out\<rparr>;
          c2 = c1\<lparr>buf := drop (bytes_consumed out) (buf c1)\<rparr>
      in
      if ws_result out = true_value then
        (if keepalive c2 then read_more c2
         else c2\<lparr>connection_type := connection_closing\<rparr>)
      else if ws_result out = false_value then read_more c2
      else read_more c2)"

text \<open>
  \<^verbatim>\<open>handle_read\<close>. \<open>data\<close> is what the read left in the prepared area, of which
  \<^verbatim>\<open>commit\<close> appends the first \<^verbatim>\<open>bytes_transferred\<close> bytes to the buffer.
\<close>

definition handle_read ::
  "collaborators \<Rightarrow> nat \<Rightarrow> error_code \<Rightarrow> nat \<Rightarrow> string \<Rightarrow> connection \<Rightarrow> connection" where
  "handle_read env now error bytes_transferred data c =
     (let c1 = emit TimerCancel c in
      if error = success \<and> bytes_transferred > 0 then
        (let c2 = c1\<lparr>buf := buf c1 @ take bytes_transferred data\<rparr>;
             c3 = c2\<lparr>m_lastresponse := now\<rparr>
         in case connection_type c3 of
              connection_http \<Rightarrow> handle_read_http env c3
            | connection_websocket \<Rightarrow> handle_read_websocket env c3
            | connection_closing \<Rightarrow> handle_read_websocket env c3)
      else if error \<noteq> operation_aborted then emit ManagerStop c1
      else c1)"

definition handle_write :: "nat \<Rightarrow> error_code \<Rightarrow> nat \<Rightarrow> connection \<Rightarrow> connection" where
  "handle_write now error bytes_transferred c =
     (let c1 = c\<lparr>write_in_progress := False\<rparr>;
          c2 = (if error = success then
                  (case writeQ c1 of
                     b # q \<Rightarrow> (SocketWrite b c1)\<lparr>writeQ := q\<rparr>
                   | [] \<Rightarrow>
                       (if \<not> keepalive c1 then emit ManagerStop (emit SocketShutdown c1)
                        else c1))
                else c1)
      in c2\<lparr>m_lastresponse := now\<rparr>)"

section \<open>Write requests and write completions\<close>

text \<open>
  The buffers handed to the transport so far, in order: one for every
  \<^verbatim>\<open>async_write\<close> the connection has started.
\<close>

fun sent_of :: "effect list \<Rightarrow> string list" where
  "sent_of [] = []"
| "sent_of (AsyncWrite b # es) = b # sent_of es"
| "sent_of (e # es) = sent_of es"

definition sent :: "connection \<Rightarrow> string list" where
  "sent c = sent_of (io c)"

text \<open>The requests handed to the request handler so far, in order.\<close>

fun dispatched_of :: "effect list \<Rightarrow> request list" where
  "dispatched_of [] = []"
| "dispatched_of (HandleRequest q # es) = q # dispatched_of es"
| "dispatched_of (e # es) = dispatched_of es"

text \<open>
  What \<open>handle_read_http\<close> computes from a parsed request \<open>r\<close>: whether its
  \<open>Connection\<close> header asks to keep the connection alive, and the request as the handler
  receives it.
\<close>

definition header_keepalive :: "collaborators \<Rightarrow> request \<Rightarrow> bool" where
  "header_keepalive env r =
     (case get_req_header env r ''Connection'' of
        None \<Rightarrow> False
      | Some v \<Rightarrow> iequals v ''Keep-Alive'')"

definition dispatched :: "collaborators \<Rightarrow> connection \<Rightarrow> request \<Rightarrow> request" where
  "dispatched env c r =
     r\<lparr>keep_alive := header_keepalive env r, host := request_host (host_endpoint c)\<rparr>"

text \<open>
  A connection together with the number of write completions the transport has
  delivered to it. The writes in flight are the writes started and not yet completed.
\<close>

type_synonym wire = "connection \<times> nat"

definition in_flight :: "wire \<Rightarrow> nat" where
  "in_flight w = length (sent (fst w)) - snd w"

text \<open>
  \<^verbatim>\<open>MyWrite\<close> and \<^verbatim>\<open>handle_write\<close> both begin with
  \<^verbatim>\<open>boost::unique_lock<boost::mutex>(writeMutex);\<close>, which declares a local lock named
  \<^verbatim>\<open>writeMutex\<close> that owns no mutex: no caller is kept waiting for another. So a call is
  not one event. A caller of \<^verbatim>\<open>MyWrite\<close> first looks at \<^verbatim>\<open>connection_type\<close> and
  \<^verbatim>\<open>write_in_progress\<close> and then acts on what it saw; \<^verbatim>\<open>handle_write\<close> first clears
  \<^verbatim>\<open>write_in_progress\<close> and then does the rest. Other events may fall in between.
\<close>

datatype choice = Queue | Start | Skip

definition MyWrite_look :: "connection \<Rightarrow> choice" where
  "MyWrite_look c =
     (case connection_type c of
        connection_http \<Rightarrow> (if write_in_progress c then Queue else Start)
      | connection_websocket \<Rightarrow> (if write_in_progress c then Queue else Start)
      | connection_closing \<Rightarrow> Skip)"

definition MyWrite_act :: "choice \<Rightarrow> string \<Rightarrow> connection \<Rightarrow> connection" where
  "MyWrite_act ch b c =
     (case ch of
        Queue \<Rightarrow> c\<lparr>writeQ := writeQ c @ [b]\<rparr>
      | Start \<Rightarrow> SocketWrite b c
      | Skip \<Rightarrow> c)"

definition handle_write_begin :: "connection \<Rightarrow> connection" where
  "handle_write_begin c = c\<lparr>write_in_progress := False\<rparr>"

definition handle_write_end :: "nat \<Rightarrow> error_code \<Rightarrow> nat \<Rightarrow> connection \<Rightarrow> connection" where
  "handle_write_end now error bytes_transferred c1 =
     (let c2 = (if error = success then
                  (case writeQ c1 of
                     b # q \<Rightarrow> (SocketWrite b c1)\<lparr>writeQ := q\<rparr>
                   | [] \<Rightarrow>
                       (if \<not> keepalive c1 then emit ManagerStop (emit SocketShutdown c1)
                        else c1))
                else c1)
      in c2\<lparr>m_lastresponse := now\<rparr>)"

text \<open>
  The events of a run. \<open>Look t\<close>: the caller \<open>t\<close> of \<^verbatim>\<open>MyWrite\<close> reads the state.
  \<open>Act t b\<close>: it does with its buffer \<open>b\<close> what it chose when it looked.
  \<open>CompletionBegins\<close>: the transport completes a write and \<^verbatim>\<open>handle_write\<close> clears the
  flag. \<open>CompletionEnds\<close>: \<^verbatim>\<open>handle_write\<close> does the rest, with the time, the error and
  the byte count it was called with.

  The state of a run: the connection, the number of completions delivered, what each
  caller that has looked and not yet acted has chosen, and the number of calls of
  \<^verbatim>\<open>handle_write\<close> that have begun and not ended. The transport completes only a write
  that it has been given: with none in flight no completion begins.
\<close>

datatype micro_event =
    Look nat
  | Act nat string
  | CompletionBegins
  | CompletionEnds nat error_code nat

type_synonym world = "connection \<times> nat \<times> (nat \<Rightarrow> choice option) \<times> nat"

fun mstep :: "micro_event \<Rightarrow> world \<Rightarrow> world option" where
  "mstep (Look t) (c, k, m, g) = Some (c, k, m(t \<mapsto> MyWrite_look c), g)"
| "mstep (Act t b) (c, k, m, g) =
     (case m t of
        None \<Rightarrow> None
      | Some ch \<Rightarrow> Some (MyWrite_act ch b c, k, m(t := None), g))"
| "mstep CompletionBegins (c, k, m, g) =
     (if in_flight (c, k) = 0 then None else Some (handle_write_begin c, Suc k, m, Suc g))"
| "mstep (CompletionEnds now error n) (c, k, m, g) =
     (if g = 0 then None else Some (handle_write_end now error n c, k, m, g - 1))"

fun mrun :: "micro_event list \<Rightarrow> world \<Rightarrow> world option" where
  "mrun [] w = Some w"
| "mrun (e # es) w = (case mstep e w of None \<Rightarrow> None | Some w' \<Rightarrow> mrun es w')"

definition wire_of :: "world \<Rightarrow> wire" where
  "wire_of w = (fst w, fst (snd w))"

definition writes_in_flight :: "world \<Rightarrow> nat" where
  "writes_in_flight w = in_flight (wire_of w)"

text \<open>A state in which no call is under way.\<close>

definition settled :: "wire \<Rightarrow> world" where
  "settled w = (fst w, snd w, Map.empty, 0)"

text \<open>
  Whole calls: a call of \<^verbatim>\<open>MyWrite\<close> with a buffer, or a write completion with the time,
  the error and the byte count. \<open>one_at_a_time\<close> is the run in which every call ends
  before the next begins.
\<close>

datatype write_event = WriteRequest string | WriteCompleted nat error_code nat

fun one_at_a_time :: "write_event list \<Rightarrow> micro_event list" where
  "one_at_a_time [] = []"
| "one_at_a_time (WriteRequest b # es) = Look 0 # Act 0 b # one_at_a_time es"
| "one_at_a_time (WriteCompleted now error n # es) =
     CompletionBegins # CompletionEnds now error n # one_at_a_time es"

text \<open>One whole call with nothing in between, and a list of them.\<close>

definition step :: "write_event \<Rightarrow> wire \<Rightarrow> wire option" where
  "step e w = map_option wire_of (mrun (one_at_a_time [e]) (settled w))"

fun run :: "write_event list \<Rightarrow> wire \<Rightarrow> wire option" where
  "run [] w = Some w"
| "run (e # es) w = (case step e w of None \<Rightarrow> None | Some w' \<Rightarrow> run es w')"



text \<open>
  The flag agrees with the transport: a write is in flight exactly when
  \<open>write_in_progress\<close> is set, and then it is the only one.
\<close>

definition flag_agrees :: "wire \<Rightarrow> bool" where
  "flag_agrees w =
     (length (sent (fst w)) = snd w + (if write_in_progress (fst w) then 1 else 0))"


text \<open>\<open>n\<close> successful write completions in a row.\<close>

fun drain :: "nat \<Rightarrow> nat \<Rightarrow> connection \<Rightarrow> connection" where
  "drain now 0 c = c"
| "drain now (Suc n) c = drain now n (handle_write now success 0 c)"

section \<open>Sample collaborators\<close>

text \<open>
  A small parser, handler and websocket decoder to run the connection on concrete
  inputs: \<open>''G''\<close> is a complete request without headers, \<open>''K''\<close> one with
  \<open>Connection: keep-alive\<close>, \<open>''U''\<close> an upgrade request, \<open>''?''\<close> is malformed, anything
  else is incomplete. The handler answers 101 to the upgrade request and 200 otherwise.
\<close>

definition sample_request :: "string \<Rightarrow> (string \<times> string) list \<Rightarrow> request" where
  "sample_request u hs =
     \<lparr>req_method = ''GET'', uri = u, req_headers = hs, keep_alive = False, host = []\<rparr>"

definition sample_parse :: "string \<Rightarrow> parse_outcome" where
  "sample_parse s =
     (if s = ''G'' then Returned true_value (sample_request ''/'' [])
      else if s = ''K'' then
        Returned true_value (sample_request ''/'' [(''Connection'', ''keep-alive'')])
      else if s = ''U'' then Returned true_value (sample_request ''/ws'' [])
      else if s = ''?'' then Returned false_value (sample_request [] [])
      else Returned indeterminate_value (sample_request [] []))"

definition sample_env :: collaborators where
  "sample_env =
     \<lparr>parse = sample_parse,
      get_req_header = (\<lambda>r name. map_of (req_headers r) name),
      handle_request =
        (\<lambda>r. if uri r = ''/ws'' then \<lparr>status = 101, content = []\<rparr>
             else \<lparr>status = 200, content = ''ok''\<rparr>),
      to_string = (\<lambda>r m. (if status r = 400 then ''400 '' else
                            if status r = 101 then ''101 '' else ''200 '') @ content r),
      stock_reply = (\<lambda>st. \<lparr>status = st, content = ''Bad Request''\<rparr>),
      ws_parse =
        (\<lambda>s ka. if s = ''close'' then
                   \<lparr>ws_result = true_value, bytes_consumed = 5, ws_keepalive = False,
                    ws_writes = [''CLOSE'']\<rparr>
                 else \<lparr>ws_result = indeterminate_value, bytes_consumed = 0,
                       ws_keepalive = ka, ws_writes = []\<rparr>),
      close_frame = (\<lambda>d. ''CLOSE'' @ d),
      ping_frame = ''PING''\<rparr>"

definition fresh :: connection where
  "fresh = start ''::ffff:10.0.0.5'' 0 (connection_init False 20 0)"

definition fresh_websocket :: connection where
  "fresh_websocket = drain 1 1 (handle_read sample_env 1 success 1 ''U'' fresh)"

definition fresh_closing :: connection where
  "fresh_closing = handle_read sample_env 2 success 5 ''close'' (fresh_websocket\<lparr>buf := []\<rparr>)"


text \<open>A websocket connection with a write in flight.\<close>

definition busy_websocket :: connection where
  "busy_websocket = MyWrite ''data'' fresh_websocket"

text \<open>A websocket connection whose liveness timer has expired twice in a row.\<close>

definition twice_timed_out :: connection where
  "twice_timed_out =
     handle_timeout sample_env success (handle_timeout sample_env success fresh_websocket)"

text \<open>An HTTP connection whose answer to a request without keep-alive is in flight.\<close>

definition answered :: connection where
  "answered = handle_read sample_env 1 success 1 ''G'' fresh"

text \<open>An HTTP connection that has answered a keep-alive request.\<close>

definition kept :: connection where
  "kept = handle_read sample_env 1 success 1 ''K'' fresh"


definition sample_final :: connection where
  "sample_final =
     handle_write 6 success 1 (handle_write 5 success 1 (MyWrite ''c''
       (handle_write 4 success 1 (MyWrite ''b'' (MyWrite ''a'' fresh_websocket)))))"

text \<open>
  Two callers of \<^verbatim>\<open>MyWrite\<close> on an idle websocket connection, the second looking before
  the first has acted.
\<close>

definition two_callers :: "micro_event list" where
  "two_callers = [Look 1, Look 2, Act 1 ''a'', Act 2 ''b'']"

section \<open>Calls and their parts\<close>

lemma MyWrite_split: "MyWrite_act (MyWrite_look c) b c = MyWrite b c"
  by (cases "connection_type c") (simp_all add: MyWrite_look_def MyWrite_act_def MyWrite_def)

lemma handle_write_split:
  "handle_write_end now error n (handle_write_begin c) = handle_write now error n c"
  by (simp add: handle_write_end_def handle_write_begin_def handle_write_def Let_def)

lemma step_request [simp]: "step (WriteRequest b) (c, k) = Some (MyWrite b c, k)"
  by (simp add: step_def settled_def wire_of_def MyWrite_split)

lemma step_completed [simp]:
  "step (WriteCompleted now error n) (c, k) =
     (if in_flight (c, k) = 0 then None else Some (handle_write now error n c, Suc k))"
  by (simp add: step_def settled_def wire_of_def handle_write_split)

section \<open>Evaluating the sample runs\<close>

lemmas member_defs = emit_def read_more_def SocketWrite_def MyWrite_def SendClose_def SendPing_def
  start_def stop_def handle_timeout_def handle_handshake_def handle_read_def handle_read_http_def
  handle_read_websocket_def handle_write_def connection_init_def request_host_def
  switching_protocols_def bad_request_def Let_def

lemmas sample_defs = sample_env_def sample_parse_def sample_request_def

lemma fresh_eq:
  "fresh = \<lparr>secure = False, keepalive = False, write_in_progress = False,
    connection_type = connection_http, timeout = 20,
    host_endpoint = ''::ffff:10.0.0.5'', m_lastresponse = 0, buf = [],
    write_buffer = [], writeQ = [], io = [TimerArm 20, AsyncRead]\<rparr>"
  by (simp add: fresh_def member_defs)

lemma fresh_websocket_eq:
  "fresh_websocket = \<lparr>secure = False, keepalive = True, write_in_progress = False,
    connection_type = connection_websocket, timeout = 20,
    host_endpoint = ''::ffff:10.0.0.5'', m_lastresponse = 1, buf = ''U'',
    write_buffer = ''101 '', writeQ = [],
    io = [TimerArm 20, AsyncRead, TimerCancel,
          HandleRequest
           \<lparr>req_method = ''GET'', uri = ''/ws'', req_headers = [],
              keep_alive = False, host = ''10.0.0.5''\<rparr>,
          AsyncWrite ''101 '',
          StoreSessionId
           \<lparr>req_method = ''GET'', uri = ''/ws'', req_headers = [],
              keep_alive = False, host = ''10.0.0.5''\<rparr>
           \<lparr>status = 101, content = []\<rparr>,
          TimerArm 20, AsyncRead]\<rparr>"
  by (simp add: fresh_websocket_def fresh_eq member_defs sample_defs)

lemma fresh_closing_eq:
  "fresh_closing = \<lparr>secure = False, keepalive = False, write_in_progress = True,
    connection_type = connection_closing, timeout = 20,
    host_endpoint = ''::ffff:10.0.0.5'', m_lastresponse = 2, buf = [],
    write_buffer = ''CLOSE'', writeQ = [],
    io = [TimerArm 20, AsyncRead, TimerCancel,
          HandleRequest
           \<lparr>req_method = ''GET'', uri = ''/ws'', req_headers = [],
              keep_alive = False, host = ''10.0.0.5''\<rparr>,
          AsyncWrite ''101 '',
          StoreSessionId
           \<lparr>req_method = ''GET'', uri = ''/ws'', req_headers = [],
              keep_alive = False, host = ''10.0.0.5''\<rparr>
           \<lparr>status = 101, content = []\<rparr>,
          TimerArm 20, AsyncRead, TimerCancel, AsyncWrite ''CLOSE'']\<rparr>"
  by (simp add: fresh_closing_def fresh_websocket_eq member_defs sample_defs)


lemma answered_eq:
  "answered = \<lparr>secure = False, keepalive = False, write_in_progress = True,
    connection_type = connection_http, timeout = 20,
    host_endpoint = ''::ffff:10.0.0.5'', m_lastresponse = 1, buf = ''G'',
    write_buffer = ''200 ok'', writeQ = [],
    io = [TimerArm 20, AsyncRead, TimerCancel,
          HandleRequest
           \<lparr>req_method = ''GET'', uri = ''/'', req_headers = [],
              keep_alive = False, host = ''10.0.0.5''\<rparr>,
          AsyncWrite ''200 ok'']\<rparr>"
  by (simp add: answered_def fresh_eq member_defs sample_defs)

lemma iequals_sample: "iequals ''keep-alive'' ''Keep-Alive''"
  by code_simp

lemma kept_eq:
  "kept = \<lparr>secure = False, keepalive = True, write_in_progress = True,
    connection_type = connection_http, timeout = 20,
    host_endpoint = ''::ffff:10.0.0.5'', m_lastresponse = 1, buf = ''K'',
    write_buffer = ''200 ok'', writeQ = [],
    io = [TimerArm 20, AsyncRead, TimerCancel,
          HandleRequest
           \<lparr>req_method = ''GET'', uri = ''/'',
              req_headers = [(''Connection'', ''keep-alive'')],
              keep_alive = True, host = ''10.0.0.5''\<rparr>,
          AsyncWrite ''200 ok'', TimerArm 20, AsyncRead]\<rparr>"
  by (simp add: kept_def fresh_eq member_defs sample_defs iequals_sample)

lemma busy_websocket_eq:
  "busy_websocket = fresh_websocket\<lparr>write_in_progress := True, write_buffer := ''data'',
     io := io fresh_websocket @ [AsyncWrite ''data'']\<rparr>"
  by (simp add: busy_websocket_def fresh_websocket_eq member_defs)

lemma twice_timed_out_eq:
  "twice_timed_out = fresh_websocket\<lparr>write_in_progress := True, write_buffer := ''PING'',
     writeQ := [''PING''], io := io fresh_websocket @ [AsyncWrite ''PING'']\<rparr>"
  by (simp add: twice_timed_out_def fresh_websocket_eq member_defs sample_defs)

lemma sample_final_eq:
  "sample_final = fresh_websocket\<lparr>write_in_progress := False, write_buffer := ''c'',
     m_lastresponse := 6,
     io := io fresh_websocket @ [AsyncWrite ''a'', AsyncWrite ''b'', AsyncWrite ''c'']\<rparr>"
  by (simp add: sample_final_def fresh_websocket_eq member_defs)


section \<open>Writes\<close>



lemma MyWrite_closing:
  "connection_type c = connection_closing \<Longrightarrow> MyWrite b c = c"
  by (simp add: MyWrite_def)

lemma sent_of_append: "sent_of (xs @ ys) = sent_of xs @ sent_of ys"
  by (induction xs rule: sent_of.induct) simp_all

lemma dispatched_of_append: "dispatched_of (xs @ ys) = dispatched_of xs @ dispatched_of ys"
  by (induction xs rule: dispatched_of.induct) simp_all

lemma MyWrite_type: "connection_type (MyWrite b c) = connection_type c"
  by (cases "connection_type c") (simp_all add: MyWrite_def SocketWrite_def emit_def)

lemma MyWrite_keepalive: "keepalive (MyWrite b c) = keepalive c"
  by (cases "connection_type c") (simp_all add: MyWrite_def SocketWrite_def emit_def)

lemma handle_write_type: "connection_type (handle_write now e n c) = connection_type c"
  by (simp add: handle_write_def SocketWrite_def emit_def Let_def split: list.splits)

lemma handle_write_keepalive: "keepalive (handle_write now e n c) = keepalive c"
  by (simp add: handle_write_def SocketWrite_def emit_def Let_def split: list.splits)

lemma handle_write_success_queued:
  "writeQ c = b # q \<Longrightarrow>
     handle_write now success n c =
       c\<lparr>write_in_progress := True, write_buffer := b, io := io c @ [AsyncWrite b],
         writeQ := q, m_lastresponse := now\<rparr>"
  by (simp add: handle_write_def SocketWrite_def emit_def)

lemma handle_write_success_idle:
  "writeQ c = [] \<Longrightarrow>
     handle_write now success n c =
       (if keepalive c then c\<lparr>write_in_progress := False, m_lastresponse := now\<rparr>
        else c\<lparr>write_in_progress := False, io := io c @ [SocketShutdown, ManagerStop],
               m_lastresponse := now\<rparr>)"
  by (simp add: handle_write_def emit_def)

lemma handle_write_failed:
  "error \<noteq> success \<Longrightarrow>
     handle_write now error n c = c\<lparr>write_in_progress := False, m_lastresponse := now\<rparr>"
  by (simp add: handle_write_def)

lemma handle_write_no_read:
  "\<exists>ws. io (handle_write now e n c) = io c @ ws \<and> AsyncRead \<notin> set ws"
  by (simp add: handle_write_def SocketWrite_def emit_def Let_def split: list.splits)

subsection \<open>At most one write in flight\<close>

lemma step_flag_agrees:
  assumes "flag_agrees w" and "step e w = Some w'"
  shows "flag_agrees w'"
proof (cases w)
  case (Pair c k)
  show ?thesis
  proof (cases e)
    case (WriteRequest b)
    with Pair assms show ?thesis
      by (cases "connection_type c"; cases "write_in_progress c")
         (auto simp: flag_agrees_def sent_def MyWrite_def SocketWrite_def emit_def sent_of_append)
  next
    case (WriteCompleted now err n)
    with Pair assms show ?thesis
      by (auto simp: flag_agrees_def in_flight_def sent_def handle_write_def SocketWrite_def
            emit_def sent_of_append Let_def split: if_splits list.splits)
  qed
qed

lemma run_flag_agrees:
  "flag_agrees w \<Longrightarrow> run evs w = Some w' \<Longrightarrow> flag_agrees w'"
  by (induction evs arbitrary: w) (auto split: option.splits dest: step_flag_agrees)


subsection \<open>First in, first out\<close>




subsection \<open>Draining the queue\<close>

lemma drain_closes:
  "\<not> keepalive c \<Longrightarrow>
     io (drain now (Suc (length (writeQ c))) c) =
       io c @ map AsyncWrite (writeQ c) @ [SocketShutdown, ManagerStop]"
proof (induction "writeQ c" arbitrary: c)
  case Nil
  then show ?case by (simp add: handle_write_success_idle)
next
  case (Cons b q)
  from Cons(2) have q: "writeQ c = b # q" by simp
  let ?c1 = "handle_write now success 0 c"
  have "q = writeQ ?c1" using q by (simp add: handle_write_success_queued)
  moreover have "\<not> keepalive ?c1" using Cons.prems by (simp add: handle_write_keepalive)
  ultimately have "io (drain now (Suc (length (writeQ ?c1))) ?c1) =
       io ?c1 @ map AsyncWrite (writeQ ?c1) @ [SocketShutdown, ManagerStop]"
    by (rule Cons(1))
  then show ?case using q by (simp add: handle_write_success_queued)
qed

subsection \<open>Calls that run one at a time, and calls that overlap\<close>








text \<open>
  Calls that overlap are another matter. Two callers of \<^verbatim>\<open>MyWrite\<close> that both look
  before either acts both find no write in progress, and both start a write: two writes
  are then in flight.
\<close>

lemma two_callers_start_two_writes:
  "map_option writes_in_flight (mrun two_callers (settled (fresh_websocket, 1))) = Some 2 \<and>
   map_option (\<lambda>w. sent (fst w)) (mrun two_callers (settled (fresh_websocket, 1))) =
     Some [''101 '', ''a'', ''b'']"
  by (simp add: two_callers_def settled_def fresh_websocket_eq MyWrite_look_def MyWrite_act_def
        SocketWrite_def emit_def writes_in_flight_def wire_of_def in_flight_def sent_def)

section \<open>Reads\<close>

lemma handle_read_http_branch:
  assumes "connection_type c = connection_http" and "0 < n"
  shows "handle_read env now success n data c =
     handle_read_http env
       (c\<lparr>io := io c @ [TimerCancel], buf := buf c @ take n data, m_lastresponse := now\<rparr>)"
  using assms by (simp add: handle_read_def emit_def)

lemma handle_read_http_complete:
  assumes "parse env (buf c) = Returned true_value r"
  shows "handle_read_http env c =
     (let r2 = dispatched env c r;
          rep = handle_request env r2;
          c4 = MyWrite (to_string env rep (req_method r))
                 (emit (HandleRequest r2) (c\<lparr>keepalive := header_keepalive env r\<rparr>));
          c5 = (if status rep = switching_protocols then
                  emit (StoreSessionId r2 rep)
                    (c4\<lparr>connection_type := connection_websocket, keepalive := True\<rparr>)
                else c4)
      in if keepalive c5 then read_more c5 else c5)"
  unfolding handle_read_http_def assms Let_def
  unfolding header_keepalive_def[symmetric]
  by (simp add: dispatched_def)

lemma handle_read_http_malformed:
  assumes "parse env (buf c) = Returned false_value r"
  shows "handle_read_http env c =
     MyWrite (to_string env (stock_reply env bad_request) (req_method r)) (c\<lparr>keepalive := False\<rparr>)"
  unfolding handle_read_http_def assms by (simp add: Let_def MyWrite_keepalive)

lemma MyWrite_io:
  "io (MyWrite b c) =
     io c @ (if connection_type c \<noteq> connection_closing \<and> \<not> write_in_progress c
             then [AsyncWrite b] else [])"
  by (cases "connection_type c") (simp_all add: MyWrite_def SocketWrite_def emit_def)

lemma MyWrite_writeQ:
  "writeQ (MyWrite b c) =
     writeQ c @ (if connection_type c \<noteq> connection_closing \<and> write_in_progress c
                 then [b] else [])"
  by (cases "connection_type c") (simp_all add: MyWrite_def SocketWrite_def emit_def)

lemma MyWrite_in_progress:
  "connection_type c \<noteq> connection_closing \<Longrightarrow> write_in_progress (MyWrite b c)"
  by (cases "connection_type c") (simp_all add: MyWrite_def SocketWrite_def emit_def)

lemma MyWrite_timeout: "timeout (MyWrite b c) = timeout c"
  by (cases "connection_type c") (simp_all add: MyWrite_def SocketWrite_def emit_def)

lemma dispatched_after_commit:
  "dispatched env (c\<lparr>io := e, buf := d, m_lastresponse := t\<rparr>) r = dispatched env c r"
  by (simp add: dispatched_def)

text \<open>The fields of the connection after a complete request.\<close>

lemma complete_request_type:
  assumes "connection_type c = connection_http" and "0 < n"
    and "parse env (buf c @ take n data) = Returned true_value r"
  shows "connection_type (handle_read env now success n data c) =
     (if status (handle_request env (dispatched env c r)) = switching_protocols
      then connection_websocket else connection_http)"
  using assms
  by (simp add: handle_read_http_branch handle_read_http_complete Let_def dispatched_after_commit
        emit_def read_more_def MyWrite_type)

lemma complete_request_keepalive:
  assumes "connection_type c = connection_http" and "0 < n"
    and "parse env (buf c @ take n data) = Returned true_value r"
  shows "keepalive (handle_read env now success n data c) =
     (header_keepalive env r \<or>
      status (handle_request env (dispatched env c r)) = switching_protocols)"
  using assms
  by (simp add: handle_read_http_branch handle_read_http_complete Let_def dispatched_after_commit
        emit_def read_more_def MyWrite_keepalive)

lemma complete_request_io:
  assumes "connection_type c = connection_http" and "0 < n"
    and "parse env (buf c @ take n data) = Returned true_value r"
  shows "io (handle_read env now success n data c) =
     io c @ [TimerCancel, HandleRequest (dispatched env c r)] @
     (if write_in_progress c then []
      else [AsyncWrite (to_string env (handle_request env (dispatched env c r)) (req_method r))]) @
     (if status (handle_request env (dispatched env c r)) = switching_protocols
      then [StoreSessionId (dispatched env c r) (handle_request env (dispatched env c r))]
      else []) @
     (if header_keepalive env r \<or>
         status (handle_request env (dispatched env c r)) = switching_protocols
      then [TimerArm (timeout c), AsyncRead] else [])"
  using assms
  by (simp add: handle_read_http_branch handle_read_http_complete Let_def dispatched_after_commit
        emit_def read_more_def MyWrite_keepalive MyWrite_io MyWrite_timeout)

section \<open>The claims\<close>




text \<open>
  C2 (as amended). When the liveness timer expires and the expiry was not cancelled:
  in the HTTP state the connection asks the connection manager to stop it; in the
  websocket state every expiry hands one liveness probe to \<open>MyWrite\<close> and nothing else, so
  that after two expiries in a row the connection is still in the websocket state and
  has asked for no stop, no shutdown and no close; in the closing state nothing happens.
\<close>

theorem handle_timeout_by_mode:
  assumes "error \<noteq> operation_aborted" and "error2 \<noteq> operation_aborted"
  shows "(connection_type c = connection_http \<longrightarrow>
            handle_timeout env error c = c\<lparr>io := io c @ [ManagerStop]\<rparr>) \<and>
         (connection_type c = connection_websocket \<longrightarrow>
            handle_timeout env error c = MyWrite (ping_frame env) c \<and>
            handle_timeout env error2 (handle_timeout env error c) =
              MyWrite (ping_frame env) (MyWrite (ping_frame env) c) \<and>
            connection_type (handle_timeout env error2 (handle_timeout env error c)) =
              connection_websocket \<and>
            io (handle_timeout env error2 (handle_timeout env error c)) =
              io c @ (if write_in_progress c then [] else [AsyncWrite (ping_frame env)]) \<and>
            writeQ (handle_timeout env error2 (handle_timeout env error c)) =
              writeQ c @ (if write_in_progress c then [ping_frame env, ping_frame env]
                          else [ping_frame env])) \<and>
         (connection_type c = connection_closing \<longrightarrow> handle_timeout env error c = c)"
proof -
  have http: "handle_timeout env error c = c\<lparr>io := io c @ [ManagerStop]\<rparr>"
    if "connection_type c = connection_http"
    using that assms by (simp add: handle_timeout_def emit_def)
  have closing: "handle_timeout env error c = c" if "connection_type c = connection_closing"
    using that by (simp add: handle_timeout_def)
  have ws: "handle_timeout env e k = MyWrite (ping_frame env) k"
    if "connection_type k = connection_websocket" "e \<noteq> operation_aborted" for e k
    using that by (simp add: handle_timeout_def SendPing_def)
  have two: "handle_timeout env error2 (handle_timeout env error c) =
      MyWrite (ping_frame env) (MyWrite (ping_frame env) c)"
    if "connection_type c = connection_websocket"
    using that assms by (simp add: ws MyWrite_type)
  have rest: "connection_type (MyWrite (ping_frame env) (MyWrite (ping_frame env) c)) =
        connection_websocket \<and>
      io (MyWrite (ping_frame env) (MyWrite (ping_frame env) c)) =
        io c @ (if write_in_progress c then [] else [AsyncWrite (ping_frame env)]) \<and>
      writeQ (MyWrite (ping_frame env) (MyWrite (ping_frame env) c)) =
        writeQ c @ (if write_in_progress c then [ping_frame env, ping_frame env]
                    else [ping_frame env])"
    if "connection_type c = connection_websocket"
    using that by (simp add: MyWrite_type MyWrite_io MyWrite_writeQ MyWrite_in_progress)
  show ?thesis
    using http closing ws[of c error] two rest assms(1) by simp
qed

theorem handle_timeout_by_mode_witness:
  "success \<noteq> operation_aborted \<and>
   connection_type fresh = connection_http \<and>
   handle_timeout sample_env success fresh = fresh\<lparr>io := io fresh @ [ManagerStop]\<rparr> \<and>
   connection_type fresh_websocket = connection_websocket \<and>
   handle_timeout sample_env success fresh_websocket = MyWrite ''PING'' fresh_websocket \<and>
   io (handle_timeout sample_env success (handle_timeout sample_env success fresh_websocket)) =
     io fresh_websocket @ [AsyncWrite ''PING'']"
proof -
  have e: "success \<noteq> operation_aborted" by simp
  have p: "ping_frame sample_env = ''PING''" by (simp add: sample_env_def)
  have th: "connection_type fresh = connection_http" by (simp add: fresh_eq)
  have tw: "connection_type fresh_websocket = connection_websocket"
    by (simp add: fresh_websocket_eq)
  have w: "\<not> write_in_progress fresh_websocket" by (simp add: fresh_websocket_eq)
  from handle_timeout_by_mode[OF e e, of fresh sample_env] th
  have 1: "handle_timeout sample_env success fresh = fresh\<lparr>io := io fresh @ [ManagerStop]\<rparr>"
    by blast
  from handle_timeout_by_mode[OF e e, of fresh_websocket sample_env] tw
  have 2: "handle_timeout sample_env success fresh_websocket =
        MyWrite (ping_frame sample_env) fresh_websocket"
    and 3: "io (handle_timeout sample_env success
          (handle_timeout sample_env success fresh_websocket)) =
        io fresh_websocket @
          (if write_in_progress fresh_websocket then [] else [AsyncWrite (ping_frame sample_env)])"
    by blast+
  show ?thesis
    using 1 2 3 e th tw w p by simp
qed

theorem second_timeout_counterexample:
  "connection_type twice_timed_out = connection_websocket \<and>
   ManagerStop \<notin> set (io twice_timed_out) \<and>
   SocketShutdown \<notin> set (io twice_timed_out) \<and>
   SocketClose \<notin> set (io twice_timed_out) \<and>
   sent twice_timed_out = [''101 '', ''PING''] \<and>
   writeQ twice_timed_out = [''PING'']"
  by (simp add: twice_timed_out_eq fresh_websocket_eq sent_def)

text \<open>
  C3. A write completion that reports an error only clears \<open>write_in_progress\<close> and
  stamps the time: on an HTTP connection without keep-alive and on a websocket
  connection alike, nothing asks the connection manager to stop the connection, the
  websocket connection stays in the websocket state, and no read and no timer is left
  to end the HTTP connection.
\<close>

theorem write_error_is_dropped:
  "handle_write 2 (other_error 32) 0 answered =
     answered\<lparr>write_in_progress := False, m_lastresponse := 2\<rparr> \<and>
   io (handle_write 2 (other_error 32) 0 answered) =
     [TimerArm 20, AsyncRead, TimerCancel,
      HandleRequest \<lparr>req_method = ''GET'', uri = ''/'', req_headers = [],
                      keep_alive = False, host = ''10.0.0.5''\<rparr>,
      AsyncWrite ''200 ok''] \<and>
   handle_write 2 (other_error 32) 0 busy_websocket =
     busy_websocket\<lparr>write_in_progress := False, m_lastresponse := 2\<rparr> \<and>
   connection_type (handle_write 2 (other_error 32) 0 busy_websocket) = connection_websocket \<and>
   ManagerStop \<notin> set (io (handle_write 2 (other_error 32) 0 busy_websocket))"
  by (simp add: handle_write_failed answered_eq busy_websocket_eq fresh_websocket_eq)

text \<open>
  C4. When a complete request is parsed on an HTTP connection and the handler's reply
  has the status 101, the connection is in the websocket state after \<open>handle_read\<close> and
  its keep-alive flag is set, whatever the request's \<open>Connection\<close> header.
\<close>

theorem upgrade_switches_to_websocket:
  assumes "connection_type c = connection_http" and "0 < n"
    and "parse env (buf c @ take n data) = Returned true_value r"
    and "status (handle_request env (dispatched env c r)) = switching_protocols"
  shows "connection_type (handle_read env now success n data c) = connection_websocket \<and>
         keepalive (handle_read env now success n data c)"
  using assms by (simp add: complete_request_type complete_request_keepalive)

theorem upgrade_switches_to_websocket_witness:
  "connection_type fresh = connection_http \<and>
   parse sample_env (buf fresh @ take 1 ''U'') = Returned true_value (sample_request ''/ws'' []) \<and>
   \<not> header_keepalive sample_env (sample_request ''/ws'' []) \<and>
   status (handle_request sample_env (dispatched sample_env fresh (sample_request ''/ws'' []))) = 101 \<and>
   connection_type (handle_read sample_env 1 success 1 ''U'' fresh) = connection_websocket \<and>
   keepalive (handle_read sample_env 1 success 1 ''U'' fresh)"
proof -
  have t: "connection_type fresh = connection_http" by (simp add: fresh_eq)
  have n: "(0::nat) < 1" by simp
  have p: "parse sample_env (buf fresh @ take 1 ''U'') =
      Returned true_value (sample_request ''/ws'' [])"
    by (simp add: fresh_eq sample_defs)
  have h: "\<not> header_keepalive sample_env (sample_request ''/ws'' [])"
    by (simp add: header_keepalive_def sample_defs)
  have s: "status (handle_request sample_env
      (dispatched sample_env fresh (sample_request ''/ws'' []))) = switching_protocols"
    by (simp add: dispatched_def sample_defs switching_protocols_def)
  show ?thesis
    using upgrade_switches_to_websocket[OF t n p s, of 1] t p h s
    by (simp add: switching_protocols_def)
qed

text \<open>
  C5 (as amended). After a complete request on an HTTP connection, the keep-alive flag
  handed to the handler is true exactly when the request has a \<open>Connection\<close> header equal
  to \<open>keep-alive\<close> without regard to case; the connection's own keep-alive flag is that
  flag, or true when the reply has the status 101. When the connection's flag is true
  the next read is issued by \<open>handle_read\<close> itself, right after the reply is handed to
  \<open>MyWrite\<close>, and when it is false no read is issued; the completion of the write never
  issues a read.
\<close>

theorem keepalive_after_complete_request:
  assumes "connection_type c = connection_http" and "0 < n"
    and "parse env (buf c @ take n data) = Returned true_value r"
  shows "keep_alive (dispatched env c r) =
           (case get_req_header env r ''Connection'' of
              None \<Rightarrow> False | Some v \<Rightarrow> iequals v ''Keep-Alive'') \<and>
         keepalive (handle_read env now success n data c) =
           (keep_alive (dispatched env c r) \<or>
            status (handle_request env (dispatched env c r)) = switching_protocols) \<and>
         io (handle_read env now success n data c) =
           io c @ [TimerCancel, HandleRequest (dispatched env c r)] @
           (if write_in_progress c then []
            else [AsyncWrite
                    (to_string env (handle_request env (dispatched env c r)) (req_method r))]) @
           (if status (handle_request env (dispatched env c r)) = switching_protocols
            then [StoreSessionId (dispatched env c r)
                    (handle_request env (dispatched env c r))]
            else []) @
           (if keepalive (handle_read env now success n data c)
            then [TimerArm (timeout c), AsyncRead] else []) \<and>
         (\<exists>ws. io (handle_write now2 error2 n2 (handle_read env now success n data c)) =
                 io (handle_read env now success n data c) @ ws \<and> AsyncRead \<notin> set ws)"
proof -
  have k: "keep_alive (dispatched env c r) = header_keepalive env r"
    by (simp add: dispatched_def)
  show ?thesis
    unfolding complete_request_keepalive[OF assms] complete_request_io[OF assms] k
    using handle_write_no_read[of now2 error2 n2 "handle_read env now success n data c"]
    unfolding complete_request_io[OF assms]
    by (simp add: header_keepalive_def)
qed

theorem keepalive_after_complete_request_witness:
  "connection_type fresh = connection_http \<and>
   parse sample_env (buf fresh @ take 1 ''K'') =
     Returned true_value (sample_request ''/'' [(''Connection'', ''keep-alive'')]) \<and>
   keep_alive (dispatched sample_env fresh
     (sample_request ''/'' [(''Connection'', ''keep-alive'')])) \<and>
   keepalive kept \<and>
   io kept =
     io fresh @
     [TimerCancel,
      HandleRequest (dispatched sample_env fresh
        (sample_request ''/'' [(''Connection'', ''keep-alive'')])),
      AsyncWrite ''200 ok'', TimerArm 20, AsyncRead]"
proof -
  let ?r = "sample_request ''/'' [(''Connection'', ''keep-alive'')]"
  have t: "connection_type fresh = connection_http" by (simp add: fresh_eq)
  have n: "(0::nat) < 1" by simp
  have p: "parse sample_env (buf fresh @ take 1 ''K'') = Returned true_value ?r"
    by (simp add: fresh_eq sample_defs)
  have g: "get_req_header sample_env ?r ''Connection'' = Some ''keep-alive''"
    by (simp add: sample_defs)
  have s: "status (handle_request sample_env (dispatched sample_env fresh ?r)) = 200"
    by (simp add: dispatched_def sample_defs)
  have w: "to_string sample_env (handle_request sample_env (dispatched sample_env fresh ?r))
      (req_method ?r) = ''200 ok''"
    by (simp add: dispatched_def sample_defs)
  have f: "\<not> write_in_progress fresh" "timeout fresh = 20" by (simp_all add: fresh_eq)
  from keepalive_after_complete_request[OF t n p, of 1]
  show ?thesis
    unfolding kept_def[symmetric] g s w
    using t p f by (simp add: iequals_sample switching_protocols_def)
qed

theorem keepalive_counterexample:
  "parse sample_env (buf fresh @ take 1 ''U'') =
     Returned true_value (sample_request ''/ws'' []) \<and>
   get_req_header sample_env (sample_request ''/ws'' []) ''Connection'' = None \<and>
   keepalive (handle_read sample_env 1 success 1 ''U'' fresh) \<and>
   write_in_progress kept \<and>
   sent kept = [''200 ok''] \<and>
   last (io kept) = AsyncRead \<and>
   io (handle_write 2 success 6 kept) = io kept"
  by (simp add: kept_eq fresh_eq sample_defs member_defs sent_def)

text \<open>
  C6. When the parser rejects the accumulated buffer of an HTTP connection, \<open>handle_read\<close>
  clears the keep-alive flag, hands exactly one bad-request reply to \<open>MyWrite\<close> (started
  at once, or queued behind the write in flight), and issues no read. Once the pending
  writes, the reply last, have completed with success, the connection shuts the
  transport down and asks the connection manager to stop it.
\<close>

theorem malformed_request_closes:
  assumes "connection_type c = connection_http" and "0 < n"
    and "parse env (buf c @ take n data) = Returned false_value r"
  shows "handle_read env now success n data c =
           MyWrite (to_string env (stock_reply env bad_request) (req_method r))
             (c\<lparr>io := io c @ [TimerCancel], buf := buf c @ take n data,
                m_lastresponse := now, keepalive := False\<rparr>) \<and>
         \<not> keepalive (handle_read env now success n data c) \<and>
         io (handle_read env now success n data c) =
           io c @ [TimerCancel] @
           (if write_in_progress c then []
            else [AsyncWrite (to_string env (stock_reply env bad_request) (req_method r))]) \<and>
         writeQ (handle_read env now success n data c) =
           writeQ c @
           (if write_in_progress c
            then [to_string env (stock_reply env bad_request) (req_method r)] else []) \<and>
         write_in_progress (handle_read env now success n data c) \<and>
         io (drain now2 (Suc (length (writeQ (handle_read env now success n data c))))
               (handle_read env now success n data c)) =
           io (handle_read env now success n data c) @
           map AsyncWrite (writeQ (handle_read env now success n data c)) @
           [SocketShutdown, ManagerStop]"
proof -
  let ?bad = "to_string env (stock_reply env bad_request) (req_method r)"
  let ?c1 = "c\<lparr>io := io c @ [TimerCancel], buf := buf c @ take n data,
                m_lastresponse := now, keepalive := False\<rparr>"
  have eq: "handle_read env now success n data c = MyWrite ?bad ?c1"
    using assms by (simp add: handle_read_http_branch handle_read_http_malformed)
  have ka: "\<not> keepalive (MyWrite ?bad ?c1)"
    by (simp add: MyWrite_keepalive)
  have t: "connection_type ?c1 \<noteq> connection_closing"
    using assms(1) by simp
  have io1: "io (MyWrite ?bad ?c1) =
      io c @ [TimerCancel] @ (if write_in_progress c then [] else [AsyncWrite ?bad])"
    using assms(1) by (simp add: MyWrite_io)
  have q1: "writeQ (MyWrite ?bad ?c1) = writeQ c @ (if write_in_progress c then [?bad] else [])"
    using assms(1) by (simp add: MyWrite_writeQ)
  have w1: "write_in_progress (MyWrite ?bad ?c1)"
    by (rule MyWrite_in_progress[OF t])
  show ?thesis
    unfolding eq using ka io1 q1 w1 drain_closes[OF ka, of now2] by simp
qed

theorem malformed_request_closes_witness:
  "connection_type fresh = connection_http \<and>
   parse sample_env (buf fresh @ take 1 ''?'') = Returned false_value (sample_request [] []) \<and>
   \<not> keepalive (handle_read sample_env 1 success 1 ''?'' fresh) \<and>
   io (handle_read sample_env 1 success 1 ''?'' fresh) =
     io fresh @ [TimerCancel, AsyncWrite ''400 Bad Request''] \<and>
   io (drain 2 1 (handle_read sample_env 1 success 1 ''?'' fresh)) =
     io fresh @ [TimerCancel, AsyncWrite ''400 Bad Request'', SocketShutdown, ManagerStop]"
proof -
  let ?r = "sample_request [] []"
  have t: "connection_type fresh = connection_http" by (simp add: fresh_eq)
  have n: "(0::nat) < 1" by simp
  have p: "parse sample_env (buf fresh @ take 1 ''?'') = Returned false_value ?r"
    by (simp add: fresh_eq sample_defs)
  have b: "to_string sample_env (stock_reply sample_env bad_request) (req_method ?r) =
      ''400 Bad Request''"
    by (simp add: sample_defs bad_request_def)
  have f: "\<not> write_in_progress fresh" "writeQ fresh = []" by (simp_all add: fresh_eq)
  note m = malformed_request_closes[OF t n p, of 1 2]
  have 1: "\<not> keepalive (handle_read sample_env 1 success 1 ''?'' fresh)"
    using m[THEN conjunct2, THEN conjunct1] .
  have 2: "io (handle_read sample_env 1 success 1 ''?'' fresh) =
        io fresh @ [TimerCancel, AsyncWrite ''400 Bad Request'']"
    using m[THEN conjunct2, THEN conjunct2, THEN conjunct1] f unfolding b by simp
  have 3: "writeQ (handle_read sample_env 1 success 1 ''?'' fresh) = []"
    using m[THEN conjunct2, THEN conjunct2, THEN conjunct2, THEN conjunct1] f by simp
  have 5: "io (drain 2 1 (handle_read sample_env 1 success 1 ''?'' fresh)) =
      io (handle_read sample_env 1 success 1 ''?'' fresh) @ [SocketShutdown, ManagerStop]"
    using m[THEN conjunct2, THEN conjunct2, THEN conjunct2, THEN conjunct2, THEN conjunct2]
    unfolding 3 by (simp del: drain.simps)
  show ?thesis
    using t p 1 2 5 by (simp del: drain.simps)
qed

text \<open>
  C7 (as amended). When a connection in the websocket state is stopped, a close frame
  is handed to \<open>MyWrite\<close> (started at once when no write is in flight, queued behind the
  write in flight otherwise) and then, in the same call, the transport is closed:
  \<open>stop\<close> waits neither for the write in flight nor for any grace period, and it leaves
  the connection in the websocket state.
\<close>

theorem stop_websocket_closes_at_once:
  assumes "connection_type c = connection_websocket"
  shows "stop env c = emit SocketClose (MyWrite (close_frame env []) c) \<and>
         io (stop env c) =
           io c @ (if write_in_progress c then [] else [AsyncWrite (close_frame env [])]) @
           [SocketClose] \<and>
         writeQ (stop env c) =
           writeQ c @ (if write_in_progress c then [close_frame env []] else []) \<and>
         write_in_progress (stop env c) \<and>
         connection_type (stop env c) = connection_websocket"
proof -
  have t: "connection_type c \<noteq> connection_closing" using assms by simp
  have eq: "stop env c = emit SocketClose (MyWrite (close_frame env []) c)"
    using assms by (simp add: stop_def SendClose_def)
  show ?thesis
    unfolding eq using assms MyWrite_in_progress[OF t, of "close_frame env []"]
    by (simp add: emit_def MyWrite_io MyWrite_writeQ MyWrite_type)
qed

theorem stop_websocket_closes_at_once_witness:
  "connection_type fresh_websocket = connection_websocket \<and>
   \<not> write_in_progress fresh_websocket \<and>
   io (stop sample_env fresh_websocket) =
     io fresh_websocket @ [AsyncWrite ''CLOSE'', SocketClose] \<and>
   write_in_progress (stop sample_env fresh_websocket)"
proof -
  have t: "connection_type fresh_websocket = connection_websocket"
    by (simp add: fresh_websocket_eq)
  have w: "\<not> write_in_progress fresh_websocket" by (simp add: fresh_websocket_eq)
  have f: "close_frame sample_env [] = ''CLOSE''" by (simp add: sample_env_def)
  note m = stop_websocket_closes_at_once[OF t, of sample_env]
  have 1: "io (stop sample_env fresh_websocket) =
      io fresh_websocket @ [AsyncWrite ''CLOSE'', SocketClose]"
    using m[THEN conjunct2, THEN conjunct1] w unfolding f by simp
  have 2: "write_in_progress (stop sample_env fresh_websocket)"
    using m[THEN conjunct2, THEN conjunct2, THEN conjunct2, THEN conjunct1] .
  show ?thesis using t w 1 2 by simp
qed

theorem stop_during_write_counterexample:
  "connection_type busy_websocket = connection_websocket \<and>
   write_in_progress busy_websocket \<and>
   in_flight (busy_websocket, 1) = 1 \<and>
   io (stop sample_env busy_websocket) = io busy_websocket @ [SocketClose] \<and>
   in_flight (stop sample_env busy_websocket, 1) = 1 \<and>
   writeQ (stop sample_env busy_websocket) = [''CLOSE''] \<and>
   connection_type (stop sample_env busy_websocket) = connection_websocket"
  by (simp add: busy_websocket_eq fresh_websocket_eq stop_def SendClose_def MyWrite_def
        emit_def in_flight_def sent_def sample_env_def)

text \<open>
  C8. The request handed to the handler for a complete request carries as its host the
  peer address without a leading \<open>::ffff:\<close>, and the peer address itself when it does
  not start with \<open>::ffff:\<close>.
\<close>

theorem dispatched_host_strips_prefix:
  assumes "connection_type c = connection_http" and "0 < n"
    and "parse env (buf c @ take n data) = Returned true_value r"
  shows "dispatched_of (io (handle_read env now success n data c)) =
           dispatched_of (io c) @ [dispatched env c r] \<and>
         host (dispatched env c r) = request_host (host_endpoint c) \<and>
         request_host (''::ffff:'' @ rest) = rest \<and>
         (take 7 h \<noteq> ''::ffff:'' \<longrightarrow> request_host h = h)"
proof -
  have "dispatched_of (io (handle_read env now success n data c)) =
      dispatched_of (io c) @ [dispatched env c r]"
    unfolding complete_request_io[OF assms]
    by (simp add: dispatched_of_append)
  moreover have "host (dispatched env c r) = request_host (host_endpoint c)"
    by (simp add: dispatched_def)
  moreover have "request_host (''::ffff:'' @ rest) = rest"
    by (simp add: request_host_def)
  moreover have "take 7 h \<noteq> ''::ffff:'' \<longrightarrow> request_host h = h"
    by (simp add: request_host_def)
  ultimately show ?thesis by blast
qed

theorem dispatched_host_strips_prefix_witness:
  "connection_type fresh = connection_http \<and>
   host_endpoint fresh = ''::ffff:10.0.0.5'' \<and>
   parse sample_env (buf fresh @ take 1 ''G'') = Returned true_value (sample_request ''/'' []) \<and>
   map host (dispatched_of (io (handle_read sample_env 1 success 1 ''G'' fresh))) =
     [''10.0.0.5''] \<and>
   request_host ''10.0.0.5'' = ''10.0.0.5''"
proof -
  let ?r = "sample_request ''/'' []"
  have t: "connection_type fresh = connection_http" by (simp add: fresh_eq)
  have n: "(0::nat) < 1" by simp
  have p: "parse sample_env (buf fresh @ take 1 ''G'') = Returned true_value ?r"
    by (simp add: fresh_eq sample_defs)
  have e: "host_endpoint fresh = ''::ffff:10.0.0.5''" "dispatched_of (io fresh) = []"
    by (simp_all add: fresh_eq)
  note m = dispatched_host_strips_prefix[OF t n p, of 1 "''10.0.0.5''" "''10.0.0.5''"]
  have 1: "dispatched_of (io (handle_read sample_env 1 success 1 ''G'' fresh)) =
      [dispatched sample_env fresh ?r]"
    using m[THEN conjunct1] e by simp
  have 2: "host (dispatched sample_env fresh ?r) = request_host (''::ffff:'' @ ''10.0.0.5'')"
    using m[THEN conjunct2, THEN conjunct1] e by simp
  have 3: "request_host (''::ffff:'' @ ''10.0.0.5'') = ''10.0.0.5''"
    using m[THEN conjunct2, THEN conjunct2, THEN conjunct1] .
  have 4: "request_host ''10.0.0.5'' = ''10.0.0.5''"
    using m[THEN conjunct2, THEN conjunct2, THEN conjunct2] by simp
  show ?thesis
    unfolding 1 using t e p 2 3 4 by simp
qed

text \<open>
  C9. On a connection in the closing state \<open>MyWrite\<close> does nothing: the buffer is
  dropped, and the queue, the \<open>write_in_progress\<close> flag and the calls made on the
  transport are as they were.
\<close>

theorem MyWrite_closing_noop:
  assumes "connection_type c = connection_closing"
  shows "MyWrite b c = c \<and>
         writeQ (MyWrite b c) = writeQ c \<and>
         write_in_progress (MyWrite b c) = write_in_progress c \<and>
         io (MyWrite b c) = io c \<and>
         sent (MyWrite b c) = sent c"
  using assms by (simp add: MyWrite_closing)

theorem MyWrite_closing_noop_witness:
  "connection_type fresh_closing = connection_closing \<and>
   MyWrite ''late'' fresh_closing = fresh_closing \<and>
   sent (MyWrite ''late'' fresh_closing) = [''101 '', ''CLOSE'']"
proof -
  have t: "connection_type fresh_closing = connection_closing"
    by (simp add: fresh_closing_eq)
  have s: "sent fresh_closing = [''101 '', ''CLOSE'']"
    by (simp add: fresh_closing_eq sent_def)
  show ?thesis
    using MyWrite_closing_noop[OF t, of "''late''"] t s by simp
qed

text \<open>
  C10 (as amended). On a read completion that reports no error and no bytes,
  \<open>handle_read\<close> cancels the liveness timer and asks the connection manager to stop the
  connection; every field of the connection is as it was and no read is issued.
\<close>

theorem handle_read_zero_bytes:
  "handle_read env now success 0 data c = c\<lparr>io := io c @ [TimerCancel, ManagerStop]\<rparr>"
  by (simp add: handle_read_def emit_def)

theorem handle_read_zero_bytes_witness:
  "handle_read sample_env 1 success 0 [] fresh =
     fresh\<lparr>io := [TimerArm 20, AsyncRead, TimerCancel, ManagerStop]\<rparr>"
  using handle_read_zero_bytes[of sample_env 1 "[]" fresh] by (simp add: fresh_eq)

theorem zero_bytes_counterexample:
  "io (handle_read sample_env 1 success 0 [] fresh) =
     [TimerArm 20, AsyncRead, TimerCancel, ManagerStop] \<and>
   ManagerStop \<in> set (io (handle_read sample_env 1 success 0 [] fresh)) \<and>
   ManagerStop \<notin> set (io fresh)"
  by (simp add: handle_read_def emit_def fresh_eq)

end
